theory Spec2Isabelle
  imports Complex_Main "HOL-Library.Word" "HOL-Library.Sublist"
begin

section \<open>JavaScript strings\<close>

text \<open>
  \<open>String.prototype.startsWith\<close>: the receiver begins with the given search string.
\<close>

definition startsWith :: "string \<Rightarrow> string \<Rightarrow> bool" where
  "startsWith s p = (take (length p) s = p)"

section \<open>DVID requests with credentials (datasource/dvid/api.ts)\<close>

subsection \<open>The error classifier of fetchWithDVIDCredentials\<close>

text \<open>
  The value thrown by a failed request. An \<open>HttpError\<close> carries the numeric status of
  the response; any other error has no \<open>status\<close> property (\<open>undefined\<close>, here
  \<open>None\<close>).
\<close>

record fetch_error =
  status :: "int option"
  message :: string

text \<open>What the classifier answers to \<open>fetchWithCredentials\<close>: \<open>'refresh'\<close> or \<open>'retry'\<close>.\<close>

datatype credentials_action = Refresh | Retry

text \<open>
  The fifth argument of \<open>fetchWithCredentials\<close> in \<open>fetchWithDVIDCredentials\<close>:
  \<^verbatim>\<open>
  error => {
    const { status } = error;
    if (status === 403 || status === 401) { return 'refresh'; }
    if (status === 504) { return 'retry'; }
    throw error;
  }
  \<close>
  The \<open>throw\<close> is the \<open>Inl\<close> branch and carries the error that came in.
\<close>

definition errorHandler :: "fetch_error \<Rightarrow> fetch_error + credentials_action" where
  "errorHandler error =
     (if status error = Some 403 \<or> status error = Some 401 then Inr Refresh
      else if status error = Some 504 then Inr Retry
      else Inl error)"

subsection \<open>The credential headers of fetchWithDVIDCredentials\<close>











section \<open>JavaScript numbers and their decimal form\<close>

text \<open>
  A JavaScript number is modelled as an exact rational. The numbers of this program are
  voxel coordinates, sizes and resolutions: integers far below \<open>2^53\<close>, and their
  products and quotients by powers of two, on which IEEE double arithmetic is exact.
  Rounding to \<open>Float32Array\<close> storage, \<open>NaN\<close> and the infinities are not modelled.
\<close>

type_synonym number = rat

text \<open>Three-component vectors (\<open>vec3\<close>, a \<open>Float32Array\<close> of length 3).\<close>

type_synonym vec3 = "number \<times> number \<times> number"

definition vec3_map :: "(number \<Rightarrow> number) \<Rightarrow> vec3 \<Rightarrow> vec3" where
  "vec3_map f a = (case a of (x, y, z) \<Rightarrow> (f x, f y, f z))"

definition vec3_map2 :: "(number \<Rightarrow> number \<Rightarrow> number) \<Rightarrow> vec3 \<Rightarrow> vec3 \<Rightarrow> vec3" where
  "vec3_map2 f a b = (case (a, b) of ((x, y, z), (u, v, w)) \<Rightarrow> (f x u, f y v, f z w))"

definition vec3_multiply :: "vec3 \<Rightarrow> vec3 \<Rightarrow> vec3" where
  "vec3_multiply a b = vec3_map2 (\<lambda>x y. x * y) a b"

definition Math_floor :: "number \<Rightarrow> number" where
  "Math_floor x = of_int \<lfloor>x\<rfloor>"

definition Math_ceil :: "number \<Rightarrow> number" where
  "Math_ceil x = of_int \<lceil>x\<rceil>"


definition digitChar :: "nat \<Rightarrow> char" where
  "digitChar d = ''0123456789'' ! d"


text \<open>The decimal numeral of a natural number, most significant digit first.\<close>

fun natToString :: "nat \<Rightarrow> string" where
  "natToString n =
     (if n < 10 then [digitChar n] else natToString (n div 10) @ [digitChar (n mod 10)])"

declare natToString.simps [simp del]


text \<open>The digits of a fraction \<open>0 \<le> f < 1\<close> after the decimal point, at most \<open>k\<close> of them.\<close>

fun fractionDigits :: "nat \<Rightarrow> number \<Rightarrow> string" where
  "fractionDigits 0 f = []"
| "fractionDigits (Suc k) f =
     (if f = 0 then []
      else digitChar (nat \<lfloor>f * 10\<rfloor>) # fractionDigits k (f * 10 - of_int \<lfloor>f * 10\<rfloor>))"

text \<open>
  \<open>Number.prototype.toString\<close>, which a template literal applies to a number. An
  integer is written as its decimal numeral, with a minus sign when negative, as
  JavaScript writes every integer up to \<open>2^53\<close> in magnitude. A number with a
  fractional part is written with a decimal point and the digits of its expansion, as
  JavaScript writes a value whose expansion is short (\<open>0.5\<close>, \<open>2.25\<close>); the
  exponent notation of very large and very small magnitudes is not modelled.
\<close>

definition numberToString :: "number \<Rightarrow> string" where
  "numberToString x =
     (let a = \<bar>x\<bar>; whole = \<lfloor>a\<rfloor>; f = a - of_int whole
      in (if x < 0 then ''-'' else []) @ natToString (nat whole) @
         (if f = 0 then [] else CHR ''.'' # fractionDigits 17 f))"

section \<open>Clio annotation ids (datasource/clio/utils.ts)\<close>

text \<open>
  Modelled from the spec: the enum \<open>AnnotationType\<close> of \<open>neuroglancer/annotation\<close> is
  not under src/. The source names its member \<open>POINT\<close>; the other members are the other
  annotation geometries.
\<close>

datatype AnnotationType = POINT | LINE | AXIS_ALIGNED_BOUNDING_BOX | ELLIPSOID

text \<open>
  A Clio annotation, as far as its id depends on it: the field \<open>type\<close> (here
  \<open>annotationType\<close>) and the three coordinates of \<open>point\<close>.
\<close>

record ClioAnnotation =
  annotationType :: AnnotationType
  point :: vec3








section \<open>Chunk request paths\<close>

text \<open>
  \<open>VolumeChunkSource.download\<close> of datasource/precomputed/backend.ts, for the chunk
  position that \<open>computeChunkBounds\<close> returns and the chunk's data size:
  \<^verbatim>\<open>
  path = `${parameters.path}/${chunkPosition[0]}-${chunkPosition[0] + chunkDataSize[0]}_` +
         `${chunkPosition[1]}-${chunkPosition[1] + chunkDataSize[1]}_` +
         `${chunkPosition[2]}-${chunkPosition[2] + chunkDataSize[2]}`;
  \<close>
\<close>

definition precomputed_VolumeChunkSource_path :: "string \<Rightarrow> vec3 \<Rightarrow> vec3 \<Rightarrow> string" where
  "precomputed_VolumeChunkSource_path path chunkPosition chunkDataSize =
     (case (chunkPosition, chunkDataSize) of ((x, y, z), (sx, sy, sz)) \<Rightarrow>
        path @ ''/'' @ numberToString x @ ''-'' @ numberToString (x + sx) @ ''_'' @
        numberToString y @ ''-'' @ numberToString (y + sy) @ ''_'' @
        numberToString z @ ''-'' @ numberToString (z + sz))"

text \<open>
  An object id is a \<open>Uint64\<close>; a template literal writes it through its \<open>toString\<close>,
  the decimal numeral of the unsigned value.
\<close>

definition Uint64_toString :: "64 word \<Rightarrow> string" where
  "Uint64_toString x = natToString (unat x)"

text \<open>
  \<open>MeshSource.download\<close> of datasource/precomputed/backend.ts:
  \<^verbatim>\<open>let requestPath = `${parameters.path}/${chunk.objectId}:${parameters.lod}`;\<close>
\<close>

definition precomputed_MeshSource_path :: "string \<Rightarrow> 64 word \<Rightarrow> number \<Rightarrow> string" where
  "precomputed_MeshSource_path path objectId lod =
     path @ ''/'' @ Uint64_toString objectId @ '':'' @ numberToString lod"

text \<open>
  \<open>SkeletonSource.download\<close> of the DVID backend:
  \<^verbatim>\<open>
  const path =
    `/api/node/${params['nodeKey']}/${params['dataInstanceKey']}/key/${chunk.objectId}_swc`;
  \<close>
\<close>

definition dvid_SkeletonSource_path :: "string \<Rightarrow> string \<Rightarrow> 64 word \<Rightarrow> string" where
  "dvid_SkeletonSource_path nodeKey dataInstanceKey objectId =
     ''/api/node/'' @ nodeKey @ ''/'' @ dataInstanceKey @ ''/key/'' @
     Uint64_toString objectId @ ''_swc''"

section \<open>JSON values and their validation\<close>

text \<open>
  A value of \<open>JSON.parse\<close>, or \<open>undefined\<close> (what the absent property of an object
  reads as). An object lists its properties in the order of \<open>Object.keys\<close>; its keys are
  distinct.
\<close>

datatype json =
  JUndefined
| JNull
| JBool bool
| JNumber number
| JString string
| JArray "json list"
| JObject "(string \<times> json) list"

definition Object_keys :: "json \<Rightarrow> string list" where
  "Object_keys obj = (case obj of JObject kvs \<Rightarrow> map fst kvs | _ \<Rightarrow> [])"

text \<open>\<open>obj[key]\<close>: the property of that name, \<open>undefined\<close> when there is none.\<close>

definition getProperty :: "json \<Rightarrow> string \<Rightarrow> json" where
  "getProperty obj key =
     (case obj of
        JObject kvs \<Rightarrow> (case map_of kvs key of Some v \<Rightarrow> v | None \<Rightarrow> JUndefined)
      | _ \<Rightarrow> JUndefined)"

text \<open>
  The errors this program throws. The source builds each message as a string; the model
  keeps what the string is built from.
  \<^item> \<open>Expected what received\<close>: \<^verbatim>\<open>Expected <what>, but received: <received>.\<close>
  \<^item> \<open>ErrorParsingProperty name e\<close>: \<^verbatim>\<open>Error parsing "<name>" property: <e>\<close>
  \<^item> \<open>ErrorParsingKey key e\<close>: \<^verbatim>\<open>Error parsing value associated with key "<key>": <e>\<close>
  \<^item> \<open>ExtendedValuesTooShort\<close>: \<^verbatim>\<open>Expected Extended.Values property to have length >= 1, ...\<close>
  \<^item> \<open>LevelZeroNotDefined\<close>: \<^verbatim>\<open>Level 0 is not defined.\<close>
  \<^item> \<open>UnsupportedTileEncoding n\<close>: \<^verbatim>\<open>Unsupported tile encoding: <n>.\<close>
  \<^item> \<open>DataTypeNotSupported t\<close>: \<^verbatim>\<open>DVID data type "<t>" is not supported.\<close>
  \<^item> \<open>FailedToParseDataInstance key e\<close>: \<^verbatim>\<open>Failed to parse data instance "<key>": <e>\<close>
  \<^item> \<open>NodeKeyMatches nodeKey matches\<close>: \<^verbatim>\<open>Node key "<nodeKey>" matches <matches> nodes.\<close>
  \<^item> \<open>InvalidDataInstance key\<close>: \<^verbatim>\<open>Invalid data instance <key>.\<close>
  \<^item> \<open>TypeError\<close>: the engine's error for reading a property of \<open>undefined\<close>.
  \<^item> \<open>RangeError\<close>: the engine's error for a view that reaches beyond its buffer.
  \<^item> \<open>IndicesNotMultipleOf n k\<close>: \<^verbatim>\<open>Number of indices is not a multiple of <n>: <k>.\<close>
\<close>

datatype parse_error =
  Expected string json
| ErrorParsingProperty string parse_error
| ErrorParsingKey string parse_error
| ExtendedValuesTooShort
| LevelZeroNotDefined
| UnsupportedTileEncoding json
| DataTypeNotSupported string
| FailedToParseDataInstance string parse_error
| NodeKeyMatches string "string list"
| InvalidDataInstance string
| TypeError
| RangeError
| IndicesNotMultipleOf nat nat

type_synonym 'a result = "parse_error + 'a"

text \<open>Sequencing: a throw (\<open>Inl\<close>) ends the computation.\<close>

definition bindR :: "'a result \<Rightarrow> ('a \<Rightarrow> 'b result) \<Rightarrow> 'b result" where
  "bindR m f = (case m of Inl e \<Rightarrow> Inl e | Inr x \<Rightarrow> f x)"

fun mapResult :: "('a \<Rightarrow> 'b result) \<Rightarrow> 'a list \<Rightarrow> 'b list result" where
  "mapResult f [] = Inr []"
| "mapResult f (x # xs) = bindR (f x) (\<lambda>y. bindR (mapResult f xs) (\<lambda>ys. Inr (y # ys)))"

text \<open>
  Modelled from the spec: the validators of \<open>neuroglancer/util/json\<close> (\<open>verifyObject\<close>,
  \<open>verifyObjectProperty\<close>, \<open>verifyString\<close>, \<open>verifyInt\<close>, \<open>verifyPositiveInt\<close>,
  \<open>verifyFinitePositiveFloat\<close>, \<open>parseArray\<close>, \<open>parseFixedLengthArray\<close>,
  \<open>parseIntVec\<close>, \<open>verifyMapKey\<close>, \<open>verifyObjectAsMap\<close>) are not under src/. Each
  returns the parsed value when the JSON value has the shape its name says and fails with
  a descriptive error otherwise; \<open>verifyObjectProperty\<close> attributes the failure of the
  validator to the named property, \<open>verifyObjectAsMap\<close> to the key.
\<close>

definition verifyObject :: "json \<Rightarrow> json result" where
  "verifyObject obj =
     (case obj of JObject kvs \<Rightarrow> Inr obj | _ \<Rightarrow> Inl (Expected ''JSON object'' obj))"

definition verifyObjectProperty :: "json \<Rightarrow> string \<Rightarrow> (json \<Rightarrow> 'a result) \<Rightarrow> 'a result" where
  "verifyObjectProperty obj propertyName validator =
     (case validator (getProperty obj propertyName) of
        Inl parseError \<Rightarrow> Inl (ErrorParsingProperty propertyName parseError)
      | Inr v \<Rightarrow> Inr v)"

definition verifyString :: "json \<Rightarrow> string result" where
  "verifyString obj = (case obj of JString s \<Rightarrow> Inr s | _ \<Rightarrow> Inl (Expected ''string'' obj))"

definition verifyInt :: "json \<Rightarrow> number result" where
  "verifyInt obj =
     (case obj of
        JNumber x \<Rightarrow> if of_int \<lfloor>x\<rfloor> = x then Inr x else Inl (Expected ''integer'' obj)
      | _ \<Rightarrow> Inl (Expected ''integer'' obj))"

definition verifyPositiveInt :: "json \<Rightarrow> number result" where
  "verifyPositiveInt obj =
     bindR (verifyInt obj)
       (\<lambda>x. if 0 < x then Inr x else Inl (Expected ''positive integer'' obj))"

definition verifyFinitePositiveFloat :: "json \<Rightarrow> number result" where
  "verifyFinitePositiveFloat obj =
     (case obj of
        JNumber x \<Rightarrow>
          if 0 < x then Inr x
          else Inl (Expected ''positive finite floating-point number'' obj)
      | _ \<Rightarrow> Inl (Expected ''positive finite floating-point number'' obj))"

definition parseArray :: "json \<Rightarrow> (json \<Rightarrow> 'a result) \<Rightarrow> 'a list result" where
  "parseArray x parseElement =
     (case x of JArray xs \<Rightarrow> mapResult parseElement xs | _ \<Rightarrow> Inl (Expected ''JSON array'' x))"

text \<open>\<open>parseFixedLengthArray(vec3.create(), obj, parseElement)\<close>: the length is 3.\<close>

definition parseFixedLengthArray :: "json \<Rightarrow> (json \<Rightarrow> number result) \<Rightarrow> vec3 result" where
  "parseFixedLengthArray obj parseElement =
     (case obj of
        JArray [a, b, c] \<Rightarrow>
          bindR (parseElement a) (\<lambda>x.
          bindR (parseElement b) (\<lambda>y.
          bindR (parseElement c) (\<lambda>z. Inr (x, y, z))))
      | _ \<Rightarrow> Inl (Expected ''length 3 array'' obj))"

text \<open>\<open>parseIntVec(vec3.create(), obj)\<close>: an array of three integers.\<close>

definition parseIntVec :: "json \<Rightarrow> vec3 result" where
  "parseIntVec obj = parseFixedLengthArray obj verifyInt"

definition verifyMapKey :: "json \<Rightarrow> (string \<times> 'a) list \<Rightarrow> 'a result" where
  "verifyMapKey obj m =
     (case obj of
        JString s \<Rightarrow>
          (case map_of m s of Some v \<Rightarrow> Inr v | None \<Rightarrow> Inl (Expected ''one of the map keys'' obj))
      | _ \<Rightarrow> Inl (Expected ''one of the map keys'' obj))"

definition verifyObjectAsMap :: "json \<Rightarrow> (json \<Rightarrow> 'a result) \<Rightarrow> (string \<times> 'a) list result" where
  "verifyObjectAsMap obj validator =
     bindR (verifyObject obj) (\<lambda>_.
       mapResult
         (\<lambda>key. case validator (getProperty obj key) of
                  Inl parseError \<Rightarrow> Inl (ErrorParsingKey key parseError)
                | Inr v \<Rightarrow> Inr (key, v))
         (Object_keys obj))"

section \<open>DVID repository metadata (datasource/dvid/frontend.ts)\<close>

text \<open>
  Modelled from the spec: the enums \<open>DataType\<close> and \<open>VolumeType\<close> of
  \<open>neuroglancer/sliceview/base\<close> and \<open>TileEncoding\<close> of
  \<open>neuroglancer/datasource/dvid/base\<close> are not under src/; the source names the members
  \<open>UINT8\<close>, \<open>UINT32\<close>, \<open>UINT64\<close>, \<open>IMAGE\<close>, \<open>SEGMENTATION\<close> and \<open>JPEG\<close>.
\<close>

datatype DataType = UINT8 | UINT16 | UINT32 | UINT64 | FLOAT32

datatype VolumeType = UNKNOWN | IMAGE | SEGMENTATION

datatype TileEncoding = JPEG

definition serverDataTypes :: "(string \<times> DataType) list" where
  "serverDataTypes = [(''uint8'', UINT8), (''uint32'', UINT32), (''uint64'', UINT64)]"

text \<open>
  The loop of the \<open>VolumeDataInstanceInfo\<close> constructor that counts the levels: the
  data instances \<open>name_1\<close>, \<open>name_2\<close>, ... that exist beside \<open>name\<close>.
  \<^verbatim>\<open>
  this.numLevels = 1;
  let keyset = new Set<string>(keys);
  while (true) {
    if (keyset.has(name + "_" + this.numLevels.toString())) { this.numLevels += 1; }
    else { break; }
  }
  \<close>
\<close>

function countLevels :: "string list \<Rightarrow> string \<Rightarrow> nat \<Rightarrow> nat" where
  "countLevels keys name numLevels =
     (if name @ ''_'' @ natToString numLevels \<in> set keys
      then countLevels keys name (numLevels + 1)
      else numLevels)"
  by pat_completeness auto
termination
proof (relation "measure (\<lambda>(keys, name, numLevels).
    card {k \<in> set keys. \<exists>m \<ge> numLevels. k = name @ ''_'' @ natToString m})")
  show "wf (measure (\<lambda>(keys, name, numLevels).
    card {k \<in> set keys. \<exists>m \<ge> numLevels. k = name @ ''_'' @ natToString m}))"
    by simp
next
  fix keys :: "string list" and name :: string and numLevels :: nat
  assume mem: "name @ ''_'' @ natToString numLevels \<in> set keys"
  have dig: "digitChar a = digitChar b \<Longrightarrow> a = b" if "a < 10" "b < 10" for a b
  proof -
    have "a \<in> {0, 1, 2, 3, 4, 5, 6, 7, 8, 9}" "b \<in> {0, 1, 2, 3, 4, 5, 6, 7, 8, 9}"
      using that by auto
    then show "digitChar a = digitChar b \<Longrightarrow> a = b"
      by (auto simp: digitChar_def)
  qed
  have ne: "natToString a \<noteq> []" for a
    by (subst natToString.simps) simp
  have inj: "natToString a = natToString b \<Longrightarrow> a = b" for a b
  proof (induction a arbitrary: b rule: natToString.induct)
    case (1 a)
    show ?case
    proof (cases "a < 10")
      case True
      then have sa: "natToString a = [digitChar a]"
        by (simp add: natToString.simps [of a])
      show ?thesis
      proof (cases "b < 10")
        case True
        then have "natToString b = [digitChar b]"
          by (simp add: natToString.simps [of b])
        with "1.prems" sa have "digitChar a = digitChar b" by simp
        with \<open>a < 10\<close> \<open>b < 10\<close> show ?thesis by (rule dig)
      next
        case False
        then have "natToString b = natToString (b div 10) @ [digitChar (b mod 10)]"
          by (simp add: natToString.simps [of b])
        with "1.prems" sa ne [of "b div 10"] show ?thesis by simp
      qed
    next
      case False
      then have sa: "natToString a = natToString (a div 10) @ [digitChar (a mod 10)]"
        by (simp add: natToString.simps [of a])
      show ?thesis
      proof (cases "b < 10")
        case True
        then have "natToString b = [digitChar b]"
          by (simp add: natToString.simps [of b])
        with "1.prems" sa ne [of "a div 10"] show ?thesis by simp
      next
        case bf: False
        then have "natToString b = natToString (b div 10) @ [digitChar (b mod 10)]"
          by (simp add: natToString.simps [of b])
        with "1.prems" sa
        have e: "natToString (a div 10) = natToString (b div 10)"
          and d: "digitChar (a mod 10) = digitChar (b mod 10)"
          by simp_all
        from "1.IH" [OF False e] have q: "a div 10 = b div 10" .
        have r: "a mod 10 = b mod 10"
          by (rule dig [OF _ _ d]) simp_all
        from q r show ?thesis by (metis div_mult_mod_eq)
      qed
    qed
  qed
  let ?S = "\<lambda>n. {k \<in> set keys. \<exists>m \<ge> n. k = name @ ''_'' @ natToString m}"
  have "?S (numLevels + 1) \<subset> ?S numLevels"
  proof
    show "?S (numLevels + 1) \<subseteq> ?S numLevels"
      by (auto intro: Suc_leD)
    have "name @ ''_'' @ natToString numLevels \<in> ?S numLevels"
      using mem by auto
    moreover have "name @ ''_'' @ natToString numLevels \<notin> ?S (numLevels + 1)"
      by (auto dest!: inj)
    ultimately show "?S (numLevels + 1) \<noteq> ?S numLevels" by blast
  qed
  then have "card (?S (numLevels + 1)) < card (?S numLevels)"
    by (intro psubset_card_mono) auto
  then show "((keys, name, numLevels + 1), keys, name, numLevels)
    \<in> measure (\<lambda>(keys, name, numLevels).
        card {k \<in> set keys. \<exists>m \<ge> numLevels. k = name @ ''_'' @ natToString m})"
    by simp
qed

declare countLevels.simps [simp del]

subsection \<open>Data instances\<close>

text \<open>
  \<open>DataInstanceBaseInfo\<close> keeps the JSON object of the \<open>Base\<close> property; its getter
  \<open>typeName\<close> reads \<open>obj['TypeName']\<close>, which the constructor has verified to be a
  string.
\<close>

record DataInstanceBaseInfo =
  obj :: json

definition new_DataInstanceBaseInfo :: "json \<Rightarrow> DataInstanceBaseInfo result" where
  "new_DataInstanceBaseInfo obj =
     bindR (verifyObject obj) (\<lambda>_.
     bindR (verifyObjectProperty obj ''TypeName'' verifyString) (\<lambda>_.
     Inr \<lparr>obj = obj\<rparr>))"
  for obj

definition typeName :: "DataInstanceBaseInfo \<Rightarrow> string" where
  "typeName baseInfo =
     (case getProperty (DataInstanceBaseInfo.obj baseInfo) ''TypeName'' of
        JString s \<Rightarrow> s
      | _ \<Rightarrow> [])"

record DataInstanceInfo =
  obj :: json
  name :: string
  base :: DataInstanceBaseInfo

record TileLevelInfo =
  resolution :: vec3
  tileSize :: vec3

definition new_TileLevelInfo :: "json \<Rightarrow> TileLevelInfo result" where
  "new_TileLevelInfo obj =
     bindR (verifyObject obj) (\<lambda>_.
     bindR (verifyObjectProperty obj ''Resolution''
              (\<lambda>x. parseFixedLengthArray x verifyFinitePositiveFloat)) (\<lambda>resolution.
     bindR (verifyObjectProperty obj ''TileSize''
              (\<lambda>x. parseFixedLengthArray x verifyPositiveInt)) (\<lambda>tileSize.
     Inr \<lparr>resolution = resolution, tileSize = tileSize\<rparr>)))"
  for obj

text \<open>
  \<open>TileDataInstanceInfo\<close>. Its getters \<open>dataType\<close>, \<open>volumeType\<close> and \<open>numChannels\<close>
  are the constants \<open>UINT8\<close>, \<open>IMAGE\<close> and 1.
\<close>

record TileDataInstanceInfo = DataInstanceInfo +
  encoding :: TileEncoding
  voxelSize :: vec3
  levels :: "(string \<times> TileLevelInfo) list"
  lowerVoxelBound :: vec3
  upperVoxelBound :: vec3

definition new_TileDataInstanceInfo ::
  "json \<Rightarrow> string \<Rightarrow> DataInstanceBaseInfo \<Rightarrow> TileDataInstanceInfo result" where
  "new_TileDataInstanceInfo obj name base =
     bindR (verifyObjectProperty obj ''Extended'' verifyObject) (\<lambda>extended.
     bindR (verifyObjectProperty extended ''Levels''
              (\<lambda>x. verifyObjectAsMap x new_TileLevelInfo)) (\<lambda>levels.
     case map_of levels ''0'' of
       None \<Rightarrow> Inl LevelZeroNotDefined
     | Some baseLevel \<Rightarrow>
         bindR (verifyObjectProperty extended ''MinTileCoord''
                  (\<lambda>x. parseFixedLengthArray x verifyInt)) (\<lambda>minTileCoord.
         bindR (verifyObjectProperty extended ''MaxTileCoord''
                  (\<lambda>x. parseFixedLengthArray x verifyInt)) (\<lambda>maxTileCoord.
         let encodingNumber = getProperty extended ''Encoding'' in
         if encodingNumber = JNumber 2
         then Inr \<lparr>obj = obj, name = name, base = base,
                   encoding = JPEG,
                   voxelSize = resolution baseLevel,
                   levels = levels,
                   lowerVoxelBound = vec3_multiply (tileSize baseLevel) minTileCoord,
                   upperVoxelBound = vec3_multiply (tileSize baseLevel) maxTileCoord\<rparr>
         else Inl (UnsupportedTileEncoding encodingNumber)))))"
  for obj name base

record VolumeDataInstanceInfo = DataInstanceInfo +
  dataType :: DataType
  lowerVoxelBound :: vec3
  upperVoxelBound :: vec3
  voxelSize :: vec3
  numChannels :: nat
  numLevels :: nat
  volumeType :: VolumeType

definition new_VolumeDataInstanceInfo ::
  "json \<Rightarrow> string \<Rightarrow> DataInstanceBaseInfo \<Rightarrow> VolumeType \<Rightarrow> string list \<Rightarrow>
   VolumeDataInstanceInfo result" where
  "new_VolumeDataInstanceInfo obj name base volumeType keys =
     bindR (verifyObjectProperty obj ''Extended'' verifyObject) (\<lambda>extended.
     bindR (verifyObjectProperty extended ''Values''
              (\<lambda>x. parseArray x verifyObject)) (\<lambda>extendedValues.
     if length extendedValues < 1 then Inl ExtendedValuesTooShort
     else
       let numLevels = countLevels keys name 1 in
       bindR (verifyObjectProperty (hd extendedValues) ''DataType''
                (\<lambda>x. verifyMapKey x serverDataTypes)) (\<lambda>dataType.
       bindR (verifyObjectProperty extended ''MinPoint'' parseIntVec) (\<lambda>lowerVoxelBound.
       bindR (verifyObjectProperty extended ''MaxPoint'' parseIntVec) (\<lambda>upperVoxelBound.
       bindR (verifyObjectProperty extended ''VoxelSize''
                (\<lambda>x. parseFixedLengthArray x verifyFinitePositiveFloat)) (\<lambda>voxelSize.
       Inr \<lparr>obj = obj, name = name, base = base,
             dataType = dataType,
             lowerVoxelBound = lowerVoxelBound,
             upperVoxelBound = upperVoxelBound,
             voxelSize = voxelSize,
             numChannels = 1,
             numLevels = numLevels,
             volumeType = volumeType\<rparr>))))))"
  for obj name base volumeType

text \<open>
  What \<open>parseDataInstance\<close> returns is a \<open>VolumeDataInstanceInfo\<close> or a
  \<open>TileDataInstanceInfo\<close>; \<open>instanceof\<close> tells them apart.
\<close>

datatype AnyDataInstanceInfo =
  VolumeInfo VolumeDataInstanceInfo
| TileInfo TileDataInstanceInfo

definition parseDataInstance :: "json \<Rightarrow> string \<Rightarrow> string list \<Rightarrow> AnyDataInstanceInfo result" where
  "parseDataInstance obj name keys =
     bindR (verifyObject obj) (\<lambda>_.
     bindR (verifyObjectProperty obj ''Base'' new_DataInstanceBaseInfo) (\<lambda>baseInfo.
     if typeName baseInfo = ''uint8blk'' \<or> typeName baseInfo = ''grayscale8''
     then bindR (new_VolumeDataInstanceInfo obj name baseInfo IMAGE keys) (\<lambda>i. Inr (VolumeInfo i))
     else if typeName baseInfo = ''imagetile''
     then bindR (new_TileDataInstanceInfo obj name baseInfo) (\<lambda>i. Inr (TileInfo i))
     else if typeName baseInfo = ''labels64'' \<or> typeName baseInfo = ''labelblk''
     then bindR (new_VolumeDataInstanceInfo obj name baseInfo SEGMENTATION keys)
            (\<lambda>i. Inr (VolumeInfo i))
     else Inl (DataTypeNotSupported (typeName baseInfo))))"
  for obj name

subsection \<open>Volume sources of a data instance\<close>

text \<open>
  Modelled from the spec: \<open>VolumeChunkSourceParameters\<close> (datasource/dvid/base),
  \<open>VolumeChunkSpecification\<close> (sliceview/base) and \<open>ChunkLayout\<close>
  (sliceview/chunk_layout) are not under src/. The records keep the arguments the
  source passes to them; \<open>chunkLayout\<close> is the size given to \<open>ChunkLayout.get\<close>.
\<close>

record VolumeChunkSourceParameters =
  baseUrls :: "string list"
  nodeKey :: string
  dataInstanceKey :: string
  level2 :: string

record VolumeChunkSpecification =
  chunkLayout :: vec3
  chunkDataSize :: vec3
  numChannels :: nat
  dataType :: DataType
  lowerVoxelBound :: vec3
  upperVoxelBound :: vec3

record VolumeChunkSource =
  spec :: VolumeChunkSpecification
  parameters :: VolumeChunkSourceParameters

text \<open>
  \<open>VolumeDataInstanceInfo.getSources\<close>: one list of alternatives per level, each with
  the single source of that level. The chunk manager's memo table, which returns an
  existing source object for the same stringified parameters, is not modelled: the
  function returns the source that the factory \<open>() => new VolumeChunkSource(...)\<close>
  builds.
  \<^verbatim>\<open>
  for (let level = 0; level < this.numLevels; ++level) {
    let voxelSize = vec3.clone(this.voxelSize);
    let chunkDataSize = vec3.fromValues(64, 64, 64);
    voxelSize[0] = voxelSize[0]*Math.pow(2,level)   // and [1], [2]
    let chunkLayout = ChunkLayout.get(vec3.multiply(vec3.create(), voxelSize, chunkDataSize));
    for (let i = 0; i < 3; ++i) {
      lowerVoxelBound[i] = Math.floor(this.lowerVoxelBound[i] * (this.voxelSize[i] / voxelSize[i]));
      upperVoxelBound[i] = Math.ceil(this.upperVoxelBound[i] * (this.voxelSize[i] / voxelSize[i]));
    }
    ...
  \<close>
\<close>

definition vec3_map3 ::
  "(number \<Rightarrow> number \<Rightarrow> number \<Rightarrow> number) \<Rightarrow> vec3 \<Rightarrow> vec3 \<Rightarrow> vec3 \<Rightarrow> vec3" where
  "vec3_map3 f a b c =
     (case (a, b, c) of ((x, y, z), (u, v, w), (p, q, r)) \<Rightarrow> (f x u p, f y v q, f z w r))"

definition getSources ::
  "VolumeDataInstanceInfo \<Rightarrow> VolumeChunkSourceParameters \<Rightarrow> VolumeChunkSource list list" where
  "getSources info parameters =
     map (\<lambda>level.
       let voxelSize = vec3_map (\<lambda>v. v * 2 ^ level) (VolumeDataInstanceInfo.voxelSize info);
           chunkDataSize = (64, 64, 64);
           chunkLayout = vec3_multiply voxelSize chunkDataSize;
           lowerVoxelBound =
             vec3_map3 (\<lambda>bound size0 size. Math_floor (bound * (size0 / size)))
               (VolumeDataInstanceInfo.lowerVoxelBound info)
               (VolumeDataInstanceInfo.voxelSize info) voxelSize;
           upperVoxelBound =
             vec3_map3 (\<lambda>bound size0 size. Math_ceil (bound * (size0 / size)))
               (VolumeDataInstanceInfo.upperVoxelBound info)
               (VolumeDataInstanceInfo.voxelSize info) voxelSize;
           spec = \<lparr>chunkLayout = chunkLayout, chunkDataSize = chunkDataSize,
                   numChannels = VolumeDataInstanceInfo.numChannels info,
                   dataType = VolumeDataInstanceInfo.dataType info,
                   lowerVoxelBound = lowerVoxelBound,
                   upperVoxelBound = upperVoxelBound\<rparr>;
           volParameters = \<lparr>baseUrls = baseUrls parameters,
                            nodeKey = nodeKey parameters,
                            dataInstanceKey = dataInstanceKey parameters,
                            level2 = natToString level\<rparr>
       in [\<lparr>spec = spec, parameters = volParameters\<rparr>])
     [0..<numLevels info]"
  for parameters

subsection \<open>Repositories\<close>

text \<open>
  The loop of the \<open>RepositoryInfo\<close> constructor over
  \<open>Object.keys(dataInstanceObjs)\<close>, on the map and the error list built so far:
  \<^verbatim>\<open>
  for (let key of Object.keys(dataInstanceObjs)) {
    try {
      this.dataInstances.set(key,
        parseDataInstance(dataInstanceObjs[key], key, Object.keys(dataInstanceObjs)));
    } catch (parseError) {
      let message = `Failed to parse data instance ${JSON.stringify(key)}: ${parseError.message}`;
      console.log(message);
      this.errors.push(message);
    }
  }
  \<close>
\<close>

fun parseDataInstances ::
  "json \<Rightarrow> string list \<Rightarrow> (string \<rightharpoonup> AnyDataInstanceInfo) \<times> parse_error list \<Rightarrow>
   (string \<rightharpoonup> AnyDataInstanceInfo) \<times> parse_error list" where
  "parseDataInstances dataInstanceObjs [] (dataInstances, errors) = (dataInstances, errors)"
| "parseDataInstances dataInstanceObjs (key # rest) (dataInstances, errors) =
     (case parseDataInstance (getProperty dataInstanceObjs key) key
             (Object_keys dataInstanceObjs) of
        Inr instance \<Rightarrow>
          parseDataInstances dataInstanceObjs rest (dataInstances(key \<mapsto> instance), errors)
      | Inl parseError \<Rightarrow>
          parseDataInstances dataInstanceObjs rest
            (dataInstances, errors @ [FailedToParseDataInstance key parseError]))"

text \<open>
  \<open>RepositoryInfo\<close>. The field \<open>alias\<close> is \<open>repoAlias\<close> here (the source's name is a
  keyword of Isabelle). \<open>alias\<close>, \<open>description\<close> and \<open>uuid\<close> are \<open>undefined\<close>
  (\<open>None\<close>) until they are assigned; the constructor does not assign \<open>uuid\<close>.
\<close>

record RepositoryInfo =
  repoAlias :: "string option"
  description :: "string option"
  errors :: "parse_error list"
  dataInstances :: "string \<rightharpoonup> AnyDataInstanceInfo"
  uuid :: "string option"
  nodes :: "string set"

definition new_RepositoryInfo :: "json \<Rightarrow> RepositoryInfo result" where
  "new_RepositoryInfo obj =
     (if obj = JUndefined
      then Inr \<lparr>repoAlias = None, description = None, errors = [],
                dataInstances = Map.empty, uuid = None, nodes = {}\<rparr>
      else
        bindR (verifyObject obj) (\<lambda>_.
        bindR (verifyObjectProperty obj ''Alias'' verifyString) (\<lambda>alias.
        bindR (verifyObjectProperty obj ''Description'' verifyString) (\<lambda>description.
        bindR (verifyObjectProperty obj ''DataInstances'' verifyObject) (\<lambda>dataInstanceObjs.
        let parsed = parseDataInstances dataInstanceObjs (Object_keys dataInstanceObjs)
                       (Map.empty, [])
        in
        bindR (verifyObjectProperty obj ''DAG'' verifyObject) (\<lambda>dagObj.
        bindR (verifyObjectProperty dagObj ''Nodes'' verifyObject) (\<lambda>nodeObjs.
        Inr \<lparr>repoAlias = Some alias, description = Some description,
              errors = snd parsed, dataInstances = fst parsed, uuid = None,
              nodes = set (Object_keys nodeObjs)\<rparr>)))))))"
  for obj

subsection \<open>Server info\<close>

text \<open>
  \<open>ServerInfo.repositories\<close> is a \<open>Map\<close> from node keys to repositories: the list of
  its entries in insertion order, with distinct keys.
\<close>

record ServerInfo =
  repositories :: "(string \<times> RepositoryInfo) list"

text \<open>
  \<^verbatim>\<open>
  getNode (nodeKey: string) {
    let matches: string[] = [];
    for (let key of this.repositories.keys()) {
      if (key.startsWith(nodeKey)) { matches.push(key); }
    }
    if (matches.length !== 1) {
      throw new Error(`Node key ${JSON.stringify(nodeKey)} matches ${JSON.stringify(matches)} nodes.`);
    }
    return this.repositories.get(nodeKey);
  }
  \<close>
  \<open>Map.get\<close> returns \<open>undefined\<close> (\<open>None\<close>) for a key the map does not hold.
\<close>

definition getNode :: "ServerInfo \<Rightarrow> string \<Rightarrow> RepositoryInfo option result" where
  "getNode serverInfo nodeKey =
     (let matches = filter (\<lambda>key. startsWith key nodeKey) (map fst (repositories serverInfo))
      in if length matches \<noteq> 1 then Inl (NodeKeyMatches nodeKey matches)
         else Inr (map_of (repositories serverInfo) nodeKey))"
  for nodeKey

subsection \<open>The caches of server infos and volumes\<close>

text \<open>
  \<open>MultiscaleVolumeChunkSource\<close>: its constructor stores its five arguments. The
  node key it is given is \<open>repositoryInfo.uuid\<close>.
\<close>

record MultiscaleVolumeChunkSource =
  baseUrls :: "string list"
  nodeKey :: "string option"
  dataInstanceKey :: string
  level2 :: string
  info :: AnyDataInstanceInfo










section \<open>Mesh chunks (datasource/precomputed/backend.ts)\<close>

text \<open>An \<open>ArrayBuffer\<close> is its bytes.\<close>

type_synonym ArrayBuffer = "8 word list"

text \<open>The unsigned 32-bit value of four bytes, least significant byte first.\<close>

definition uint32_LE :: "8 word list \<Rightarrow> 32 word" where
  "uint32_LE bytes = of_nat (foldr (\<lambda>b n. unat b + 256 * n) bytes 0)"

text \<open>
  \<open>DataView.getUint32(byteOffset, true)\<close>: the little-endian value of the four bytes
  at the offset; a \<open>RangeError\<close> when they reach beyond the buffer.
\<close>

definition getUint32 :: "ArrayBuffer \<Rightarrow> nat \<Rightarrow> 32 word result" where
  "getUint32 buffer byteOffset =
     (if byteOffset + 4 \<le> length buffer
      then Inr (uint32_LE (take 4 (drop byteOffset buffer)))
      else Inl RangeError)"

datatype Endianness = LITTLE | BIG

text \<open>The 32-bit elements of a typed array over the given bytes, four bytes each.\<close>

fun elements32 :: "Endianness \<Rightarrow> 8 word list \<Rightarrow> 32 word list" where
  "elements32 e (a # b # c # d # rest) =
     (case e of LITTLE \<Rightarrow> uint32_LE [a, b, c, d] | BIG \<Rightarrow> uint32_LE [d, c, b, a])
       # elements32 e rest"
| "elements32 e rest = []"

text \<open>
  The payload of a mesh fragment chunk: the vertex positions (three 32-bit floats per
  vertex, kept as their bit patterns) and the vertex indices of the triangles.
\<close>

record FragmentChunk =
  fragmentId :: "string option"
  vertexPositions :: "32 word list option"
  indices :: "32 word list option"

record ManifestChunk =
  objectId :: "64 word"
  fragmentIds :: "string list option"

text \<open>
  Modelled from the spec: \<open>decodeTriangleVertexPositionsAndIndices\<close> of
  \<open>neuroglancer/mesh/backend\<close> is not under src/. The payload holds, from the vertex
  byte offset on, the vertex position data (three 32-bit floats, twelve bytes, per
  vertex), followed by the triangle indices (32-bit unsigned, three per triangle) up to
  the end of the buffer. Decoding fails when the buffer is too short for the vertex
  positions (a truncated vertex buffer), or when what follows is not a whole number of
  32-bit indices or of triangles.
\<close>

definition decodeTriangleVertexPositionsAndIndices ::
  "'a FragmentChunk_scheme \<Rightarrow> ArrayBuffer \<Rightarrow> Endianness \<Rightarrow> nat \<Rightarrow> nat \<Rightarrow>
   'a FragmentChunk_scheme result" where
  "decodeTriangleVertexPositionsAndIndices chunk data endianness vertexByteOffset numVertices =
     (if length data < vertexByteOffset + 12 * numVertices then Inl RangeError
      else
        let positionBytes = take (12 * numVertices) (drop vertexByteOffset data);
            indexBytes = drop (vertexByteOffset + 12 * numVertices) data
        in if length indexBytes mod 4 \<noteq> 0 then Inl RangeError
           else if (length indexBytes div 4) mod 3 \<noteq> 0
           then Inl (IndicesNotMultipleOf 3 (length indexBytes div 4))
           else Inr (chunk\<lparr>vertexPositions := Some (elements32 endianness positionBytes),
                           indices := Some (elements32 endianness indexBytes)\<rparr>))"

text \<open>
  \<^verbatim>\<open>
  export function decodeFragmentChunk(chunk: FragmentChunk, response: ArrayBuffer) {
    let dv = new DataView(response);
    let numVertices = dv.getUint32(0, true);
    decodeTriangleVertexPositionsAndIndices(
        chunk, response, Endianness.LITTLE, /*vertexByteOffset=*/4, numVertices);
  }
  \<close>
  The function returns the chunk as it leaves it.
\<close>

definition decodeFragmentChunk ::
  "'a FragmentChunk_scheme \<Rightarrow> ArrayBuffer \<Rightarrow> 'a FragmentChunk_scheme result" where
  "decodeFragmentChunk chunk response =
     bindR (getUint32 response 0) (\<lambda>numVertices.
       decodeTriangleVertexPositionsAndIndices chunk response LITTLE 4 (unat numVertices))"



section \<open>Example data\<close>

text \<open>A repository with no data instances, for the examples below.\<close>

definition exampleRepository :: RepositoryInfo where
  "exampleRepository =
     \<lparr>repoAlias = Some ''grayscale'', description = Some ''example'', errors = [],
      dataInstances = Map.empty, uuid = Some ''d5053e99'', nodes = {''d5053e99''}\<rparr>"

text \<open>
  The JSON of a data instance of type \<open>uint8blk\<close> with the bounds \<open>[0,0,0]\<close> and
  \<open>[100,100,100]\<close> at the resolution \<open>[10,10,10]\<close>; the volume of two levels that
  is parsed from it under the name \<open>grayscale\<close> when \<open>grayscale_1\<close> exists beside
  it; and the parameters of a source for it.
\<close>

definition exampleInstanceJson :: json where
  "exampleInstanceJson =
     JObject
       [(''Base'', JObject [(''TypeName'', JString ''uint8blk'')]),
        (''Extended'', JObject
           [(''Values'', JArray [JObject [(''DataType'', JString ''uint8'')]]),
            (''MinPoint'', JArray [JNumber 0, JNumber 0, JNumber 0]),
            (''MaxPoint'', JArray [JNumber 100, JNumber 100, JNumber 100]),
            (''VoxelSize'', JArray [JNumber 10, JNumber 10, JNumber 10])])]"

definition exampleVolumeInfo :: VolumeDataInstanceInfo where
  "exampleVolumeInfo =
     \<lparr>DataInstanceInfo.obj = exampleInstanceJson, name = ''grayscale'',
      base = \<lparr>DataInstanceBaseInfo.obj = JObject [(''TypeName'', JString ''uint8blk'')]\<rparr>,
      VolumeDataInstanceInfo.dataType = UINT8,
      VolumeDataInstanceInfo.lowerVoxelBound = (0, 0, 0),
      VolumeDataInstanceInfo.upperVoxelBound = (100, 100, 100),
      VolumeDataInstanceInfo.voxelSize = (10, 10, 10),
      VolumeDataInstanceInfo.numChannels = 1,
      numLevels = 2,
      volumeType = IMAGE\<rparr>"


text \<open>
  A fragment payload of one vertex \<open>(1.0, 2.0, 3.0)\<close> and one triangle, a payload that
  declares two vertices and holds one, and the chunk they are decoded into.
\<close>

definition exampleFragmentChunk :: FragmentChunk where
  "exampleFragmentChunk = \<lparr>fragmentId = Some ''102160:0:0-64_0-64_0-64'',
     vertexPositions = None, indices = None\<rparr>"

definition exampleFragment :: ArrayBuffer where
  "exampleFragment =
     [1, 0, 0, 0,
      0, 0, 128, 63,  0, 0, 0, 64,  0, 0, 64, 64,
      0, 0, 0, 0,  0, 0, 0, 0,  0, 0, 0, 0]"

definition truncatedFragment :: ArrayBuffer where
  "truncatedFragment = [2, 0, 0, 0,  0, 0, 128, 63,  0, 0, 0, 64,  0, 0, 64, 64]"




text \<open>
  The JSON of a repository with three data instances: the example volume, its second
  level, and an instance of a type the viewer does not support.
\<close>

definition exampleRepositoryJson :: json where
  "exampleRepositoryJson =
     JObject
       [(''Alias'', JString ''grayscale''),
        (''Description'', JString ''example''),
        (''DataInstances'', JObject
           [(''grayscale'', exampleInstanceJson),
            (''grayscale_1'', exampleInstanceJson),
            (''meta'', JObject [(''Base'', JObject [(''TypeName'', JString ''keyvalue'')])])]),
        (''DAG'', JObject [(''Nodes'', JObject [(''d5053e99'', JObject [])])])]"

section \<open>Properties\<close>

subsection \<open>Error classification\<close>

text \<open>
  Claim C1. The error classifier of \<open>fetchWithDVIDCredentials\<close> answers a failure of
  status 401 or 403 with a credential refresh and retry, and no other failure so; it
  answers status 504 with a retry under the same credentials, and no other failure so;
  every other error is thrown again, unchanged, and nothing is retried.
\<close>

theorem errorHandler_classification:
  "(errorHandler e = Inr Refresh \<longleftrightarrow> status e = Some 401 \<or> status e = Some 403) \<and>
   (errorHandler e = Inr Retry \<longleftrightarrow> status e = Some 504) \<and>
   (status e \<notin> {Some 401, Some 403, Some 504} \<longrightarrow> errorHandler e = Inl e) \<and>
   (\<forall>e'. errorHandler e = Inl e' \<longrightarrow> e' = e \<and> status e \<notin> {Some 401, Some 403, Some 504})"
  by (auto simp: errorHandler_def)

theorem errorHandler_classification_witness:
  "errorHandler \<lparr>status = Some 401, message = ''Unauthorized''\<rparr> = Inr Refresh \<and>
   errorHandler \<lparr>status = Some 403, message = ''Forbidden''\<rparr> = Inr Refresh \<and>
   errorHandler \<lparr>status = Some 504, message = ''Gateway Timeout''\<rparr> = Inr Retry \<and>
   errorHandler \<lparr>status = Some 500, message = ''Internal Server Error''\<rparr>
     = Inl \<lparr>status = Some 500, message = ''Internal Server Error''\<rparr> \<and>
   errorHandler \<lparr>status = None, message = ''Failed to fetch''\<rparr>
     = Inl \<lparr>status = None, message = ''Failed to fetch''\<rparr>"
  using errorHandler_classification [of "\<lparr>status = Some 401, message = ''Unauthorized''\<rparr>"]
    errorHandler_classification [of "\<lparr>status = Some 403, message = ''Forbidden''\<rparr>"]
    errorHandler_classification [of "\<lparr>status = Some 504, message = ''Gateway Timeout''\<rparr>"]
    errorHandler_classification [of "\<lparr>status = Some 500, message = ''Internal Server Error''\<rparr>"]
    errorHandler_classification [of "\<lparr>status = None, message = ''Failed to fetch''\<rparr>"]
  by simp

subsection \<open>Credential headers\<close>



subsection \<open>Annotation ids\<close>









subsection \<open>Chunk request paths\<close>


lemma chunk_request_paths_example:
  "precomputed_VolumeChunkSource_path ''seg/8_8_8'' (0, 64, - 128) (64, 64, 64)
     = ''seg/8_8_8/0-64_64-128_-128--64'' \<and>
   precomputed_MeshSource_path ''mesh'' 102160 0 = ''mesh/102160:0'' \<and>
   dvid_SkeletonSource_path ''d5053e99'' ''bodies1104_skeletons'' 102160
     = ''/api/node/d5053e99/bodies1104_skeletons/key/102160_swc''"
  by (simp add: precomputed_VolumeChunkSource_path_def precomputed_MeshSource_path_def
      dvid_SkeletonSource_path_def Uint64_toString_def numberToString_def
      natToString.simps digitChar_def)

subsection \<open>Node lookup\<close>

lemma getNode_matches:
  "distinct (map fst (repositories si)) \<Longrightarrow>
   length (filter (\<lambda>key. startsWith key k) (map fst (repositories si)))
     = card {key \<in> set (map fst (repositories si)). startsWith key k}"
proof -
  assume "distinct (map fst (repositories si))"
  then have "length (filter (\<lambda>key. startsWith key k) (map fst (repositories si)))
     = card ({key. startsWith key k} \<inter> set (map fst (repositories si)))"
    by (rule distinct_length_filter)
  moreover have "{key. startsWith key k} \<inter> set (map fst (repositories si))
     = {key \<in> set (map fst (repositories si)). startsWith key k}"
    by auto
  ultimately show ?thesis by simp
qed

text \<open>
  Claim C9. \<open>ServerInfo.getNode(nodeKey)\<close> throws unless exactly one repository key
  has \<open>nodeKey\<close> as a prefix; when it does not throw it returns the entry stored under
  \<open>nodeKey\<close> itself. So for some node key that is a strict prefix of exactly one
  repository key and is not a key itself, \<open>getNode\<close> passes the check and returns
  \<open>undefined\<close>.
\<close>

theorem getNode_prefix:
  "distinct (map fst (repositories si)) \<Longrightarrow>
   ((\<exists>e. getNode si k = Inl e) \<longleftrightarrow>
      card {key \<in> set (map fst (repositories si)). startsWith key k} \<noteq> 1) \<and>
   (card {key \<in> set (map fst (repositories si)). startsWith key k} = 1 \<longrightarrow>
      getNode si k = Inr (map_of (repositories si) k)) \<and>
   (\<exists>si' k' key'. distinct (map fst (repositories si')) \<and>
      {key \<in> set (map fst (repositories si')). startsWith key k'} = {key'} \<and>
      k' \<noteq> key' \<and> k' \<notin> set (map fst (repositories si')) \<and>
      getNode si' k' = Inr None)"
proof (intro conjI impI)
  assume d: "distinct (map fst (repositories si))"
  show "(\<exists>e. getNode si k = Inl e) \<longleftrightarrow>
      card {key \<in> set (map fst (repositories si)). startsWith key k} \<noteq> 1"
    using getNode_matches [OF d, of k] by (auto simp: getNode_def Let_def)
  show "getNode si k = Inr (map_of (repositories si) k)"
    if "card {key \<in> set (map fst (repositories si)). startsWith key k} = 1"
    using that getNode_matches [OF d, of k] by (auto simp: getNode_def Let_def)
next
  let ?si = "\<lparr>repositories = [(''d5053e99'', exampleRepository)]\<rparr>"
  have s: "startsWith ''d5053e99'' ''d5053e''" by (simp add: startsWith_def)
  have "distinct (map fst (repositories ?si))" by simp
  moreover have "{key \<in> set (map fst (repositories ?si)). startsWith key ''d5053e''}
      = {''d5053e99''}"
    using s by auto
  moreover have "getNode ?si ''d5053e'' = Inr None"
    using s by (simp add: getNode_def)
  ultimately show "\<exists>si' k' key'. distinct (map fst (repositories si')) \<and>
      {key \<in> set (map fst (repositories si')). startsWith key k'} = {key'} \<and>
      k' \<noteq> key' \<and> k' \<notin> set (map fst (repositories si')) \<and>
      getNode si' k' = Inr None"
    by (intro exI [of _ ?si] exI [of _ "''d5053e''"] exI [of _ "''d5053e99''"]) simp
qed

theorem getNode_prefix_witness:
  "distinct (map fst (repositories \<lparr>repositories = [(''d5053e99'', exampleRepository)]\<rparr>)) \<and>
   card {key \<in> set (map fst (repositories \<lparr>repositories = [(''d5053e99'', exampleRepository)]\<rparr>)).
         startsWith key ''d5053e''} = 1 \<and>
   getNode \<lparr>repositories = [(''d5053e99'', exampleRepository)]\<rparr> ''d5053e'' = Inr None \<and>
   getNode \<lparr>repositories = [(''d5053e99'', exampleRepository)]\<rparr> ''d5053e99''
     = Inr (Some exampleRepository) \<and>
   (\<exists>e. getNode \<lparr>repositories = [(''d5053e99'', exampleRepository)]\<rparr> ''e'' = Inl e)"
proof -
  let ?si = "\<lparr>repositories = [(''d5053e99'', exampleRepository)]\<rparr>"
  have d: "distinct (map fst (repositories ?si))" by simp
  have s: "startsWith ''d5053e99'' ''d5053e''" "startsWith ''d5053e99'' ''d5053e99''"
    "\<not> startsWith ''d5053e99'' ''e''"
    by (simp_all add: startsWith_def)
  have c1: "{key \<in> set (map fst (repositories ?si)). startsWith key ''d5053e''} = {''d5053e99''}"
    using s by auto
  have c2: "{key \<in> set (map fst (repositories ?si)). startsWith key ''d5053e99''} = {''d5053e99''}"
    using s by auto
  have c3: "{key \<in> set (map fst (repositories ?si)). startsWith key ''e''} = {}"
    using s by auto
  show ?thesis
    using d getNode_prefix [OF d, of "''d5053e''"] getNode_prefix [OF d, of "''d5053e99''"]
      getNode_prefix [OF d, of "''e''"]
    unfolding c1 c2 c3 by simp
qed

subsection \<open>Level bounds\<close>




lemma getSources_length: "length (getSources i p) = numLevels i"
  by (simp add: getSources_def)




subsection \<open>Mesh fragment decoding\<close>

lemma unat_of_nat_small: "k < 2 ^ 32 \<Longrightarrow> unat (of_nat k :: 32 word) = k"
  by (simp add: unat_of_nat)

lemma unat_uint32_LE:
  "unat (uint32_LE [b0, b1, b2, b3])
     = unat b0 + 256 * unat b1 + 65536 * unat b2 + 16777216 * unat b3"
proof -
  have b: "unat b0 < 256" "unat b1 < 256" "unat b2 < 256" "unat b3 < 256"
    using unsigned_less [of b0, where 'a = nat] unsigned_less [of b1, where 'a = nat]
      unsigned_less [of b2, where 'a = nat] unsigned_less [of b3, where 'a = nat]
    by simp_all
  then have "unat b0 + 256 * unat b1 + 65536 * unat b2 + 16777216 * unat b3 < 2 ^ 32"
    by simp
  then have "unat (of_nat (unat b0 + 256 * unat b1 + 65536 * unat b2 + 16777216 * unat b3)
      :: 32 word) = unat b0 + 256 * unat b1 + 65536 * unat b2 + 16777216 * unat b3"
    by (rule unat_of_nat_small)
  moreover have "foldr (\<lambda>b n. unat b + 256 * n) [b0, b1, b2, b3] 0
      = unat b0 + 256 * unat b1 + 65536 * unat b2 + 16777216 * unat b3"
    by simp
  ultimately show ?thesis by (simp only: uint32_LE_def)
qed

lemma getUint32_0:
  "getUint32 (b0 # b1 # b2 # b3 # rest) 0 = Inr (uint32_LE [b0, b1, b2, b3])"
  by (simp add: getUint32_def)

lemma getUint32_short: "length response < 4 \<Longrightarrow> getUint32 response 0 = Inl RangeError"
  by (simp add: getUint32_def)

lemma decodeTriangle_Inr:
  "decodeTriangleVertexPositionsAndIndices chunk data e off nv = Inr chunk' \<Longrightarrow>
   off + 12 * nv \<le> length data \<and>
   chunk' = chunk\<lparr>vertexPositions := Some (elements32 e (take (12 * nv) (drop off data))),
                   indices := Some (elements32 e (drop (off + 12 * nv) data))\<rparr>"
  unfolding decodeTriangleVertexPositionsAndIndices_def Let_def
  by (simp split: if_splits)

lemma decodeTriangle_short:
  "length data < off + 12 * nv \<Longrightarrow>
   decodeTriangleVertexPositionsAndIndices chunk data e off nv = Inl RangeError"
  by (simp add: decodeTriangleVertexPositionsAndIndices_def)

lemma decodeTriangle_ok:
  "off + 12 * nv \<le> length data \<Longrightarrow> 12 dvd (length data - (off + 12 * nv)) \<Longrightarrow>
   decodeTriangleVertexPositionsAndIndices chunk data e off nv =
     Inr (chunk\<lparr>vertexPositions := Some (elements32 e (take (12 * nv) (drop off data))),
                 indices := Some (elements32 e (drop (off + 12 * nv) data))\<rparr>)"
proof -
  assume le: "off + 12 * nv \<le> length data" and dv: "12 dvd (length data - (off + 12 * nv))"
  from dv obtain m where m: "length data - (off + 12 * nv) = 12 * m" by (auto elim: dvdE)
  have 4: "(12 * m) mod 4 = 0" by presburger
  have 3: "(12 * m) div 4 mod 3 = 0" by presburger
  show ?thesis
    using le 4 3 unfolding decodeTriangleVertexPositionsAndIndices_def Let_def
    by (simp add: m)
qed

lemma elements32_example:
  "elements32 LITTLE [0, 0, 128, 63,  0, 0, 0, 64,  0, 0, 64, 64]
     = [1065353216, 1073741824, 1077936128]"
  "elements32 LITTLE [0, 0, 0, 0,  0, 0, 0, 0,  0, 0, 0, 0] = [0, 0, 0]"
  by (simp_all add: uint32_LE_def)


text \<open>
  Claim C7. \<open>decodeFragmentChunk\<close> reads the first four bytes of the payload as a
  little-endian unsigned 32-bit vertex count, the vertex position data from byte offset 4
  on, and the triangle index data after it. A payload shorter than four bytes, or too
  short for the vertex count it declares, is a decode error and no payload is produced.
\<close>

theorem decodeFragmentChunk_layout:
  "(length response < 4 \<longrightarrow> decodeFragmentChunk chunk response = Inl RangeError) \<and>
   (response = b0 # b1 # b2 # b3 # rest \<and>
    n = unat b0 + 256 * unat b1 + 65536 * unat b2 + 16777216 * unat b3 \<longrightarrow>
      (length rest < 12 * n \<longrightarrow> decodeFragmentChunk chunk response = Inl RangeError) \<and>
      (12 * n \<le> length rest \<and> (length rest - 12 * n) mod 12 = 0 \<longrightarrow>
         decodeFragmentChunk chunk response =
           Inr (chunk\<lparr>vertexPositions := Some (elements32 LITTLE (take (12 * n) rest)),
                       indices := Some (elements32 LITTLE (drop (12 * n) rest))\<rparr>)) \<and>
      (\<forall>chunk'. decodeFragmentChunk chunk response = Inr chunk' \<longrightarrow>
         12 * n \<le> length rest \<and>
         chunk' = chunk\<lparr>vertexPositions := Some (elements32 LITTLE (take (12 * n) rest)),
                         indices := Some (elements32 LITTLE (drop (12 * n) rest))\<rparr>))"
proof (intro conjI impI)
  assume "length response < 4"
  then show "decodeFragmentChunk chunk response = Inl RangeError"
    by (simp add: decodeFragmentChunk_def getUint32_short bindR_def)
next
  assume a: "response = b0 # b1 # b2 # b3 # rest \<and>
    n = unat b0 + 256 * unat b1 + 65536 * unat b2 + 16777216 * unat b3"
  then have d: "decodeFragmentChunk chunk response =
      decodeTriangleVertexPositionsAndIndices chunk response LITTLE 4 n"
    by (simp add: decodeFragmentChunk_def getUint32_0 bindR_def unat_uint32_LE)
  from a have len: "length response = 4 + length rest" by simp
  from a have d4: "drop 4 response = rest" by simp
  have dr: "drop (4 + 12 * n) response = drop (12 * n) rest"
    using d4 by (metis add.commute drop_drop)
  {
    assume "length rest < 12 * n"
    then have "length response < 4 + 12 * n" using len by simp
    then show "decodeFragmentChunk chunk response = Inl RangeError"
      unfolding d by (rule decodeTriangle_short)
  next
    assume ok: "12 * n \<le> length rest \<and> (length rest - 12 * n) mod 12 = 0"
    then have le: "4 + 12 * n \<le> length response" using len by simp
    have "length response - (4 + 12 * n) = length rest - 12 * n" using len by simp
    with ok have dv: "12 dvd (length response - (4 + 12 * n))" by (simp add: dvd_eq_mod_eq_0)
    show "decodeFragmentChunk chunk response =
           Inr (chunk\<lparr>vertexPositions := Some (elements32 LITTLE (take (12 * n) rest)),
                       indices := Some (elements32 LITTLE (drop (12 * n) rest))\<rparr>)"
      unfolding d decodeTriangle_ok [OF le dv] d4 dr ..
  next
    show "\<forall>chunk'. decodeFragmentChunk chunk response = Inr chunk' \<longrightarrow>
         12 * n \<le> length rest \<and>
         chunk' = chunk\<lparr>vertexPositions := Some (elements32 LITTLE (take (12 * n) rest)),
                         indices := Some (elements32 LITTLE (drop (12 * n) rest))\<rparr>"
    proof (intro allI impI)
      fix chunk'
      assume "decodeFragmentChunk chunk response = Inr chunk'"
      then have "decodeTriangleVertexPositionsAndIndices chunk response LITTLE 4 n = Inr chunk'"
        unfolding d .
      from decodeTriangle_Inr [OF this]
      show "12 * n \<le> length rest \<and>
         chunk' = chunk\<lparr>vertexPositions := Some (elements32 LITTLE (take (12 * n) rest)),
                         indices := Some (elements32 LITTLE (drop (12 * n) rest))\<rparr>"
        unfolding d4 dr len by simp
    qed
  }
qed

theorem decodeFragmentChunk_layout_witness:
  "decodeFragmentChunk exampleFragmentChunk exampleFragment =
     Inr (exampleFragmentChunk\<lparr>
       vertexPositions := Some [1065353216, 1073741824, 1077936128],
       indices := Some [0, 0, 0]\<rparr>) \<and>
   decodeFragmentChunk exampleFragmentChunk truncatedFragment = Inl RangeError \<and>
   decodeFragmentChunk exampleFragmentChunk [1, 0] = Inl RangeError"
proof -
  let ?rest = "[0, 0, 128, 63,  0, 0, 0, 64,  0, 0, 64, 64,
                0, 0, 0, 0,  0, 0, 0, 0,  0, 0, 0, 0] :: ArrayBuffer"
  let ?short = "[0, 0, 128, 63,  0, 0, 0, 64,  0, 0, 64, 64] :: ArrayBuffer"
  have u: "unat (1 :: 8 word) + 256 * unat (0 :: 8 word) + 65536 * unat (0 :: 8 word)
          + 16777216 * unat (0 :: 8 word) = 1"
    "unat (2 :: 8 word) + 256 * unat (0 :: 8 word) + 65536 * unat (0 :: 8 word)
          + 16777216 * unat (0 :: 8 word) = 2"
    by simp_all
  have 1: "exampleFragment = 1 # 0 # 0 # 0 # ?rest \<and>
      1 = unat (1 :: 8 word) + 256 * unat (0 :: 8 word) + 65536 * unat (0 :: 8 word)
          + 16777216 * unat (0 :: 8 word)"
    unfolding u by (simp add: exampleFragment_def)
  have 2: "truncatedFragment = 2 # 0 # 0 # 0 # ?short \<and>
      2 = unat (2 :: 8 word) + 256 * unat (0 :: 8 word) + 65536 * unat (0 :: 8 word)
          + 16777216 * unat (0 :: 8 word)"
    unfolding u by (simp add: truncatedFragment_def)
  have l1: "12 * 1 \<le> length ?rest \<and> (length ?rest - 12 * 1) mod 12 = 0" by simp
  have l2: "length ?short < 12 * 2" by simp
  have l3: "length ([1, 0] :: ArrayBuffer) < 4" by simp
  have t: "take (12 * 1) ?rest = [0, 0, 128, 63,  0, 0, 0, 64,  0, 0, 64, 64]"
    "drop (12 * 1) ?rest = [0, 0, 0, 0,  0, 0, 0, 0,  0, 0, 0, 0]"
    by simp_all
  have a: "decodeFragmentChunk exampleFragmentChunk exampleFragment =
      Inr (exampleFragmentChunk\<lparr>
        vertexPositions := Some (elements32 LITTLE (take (12 * 1) ?rest)),
        indices := Some (elements32 LITTLE (drop (12 * 1) ?rest))\<rparr>)"
    using decodeFragmentChunk_layout [of exampleFragment exampleFragmentChunk 1 0 0 0 ?rest 1]
      1 l1 by blast
  have b: "decodeFragmentChunk exampleFragmentChunk truncatedFragment = Inl RangeError"
    using decodeFragmentChunk_layout [of truncatedFragment exampleFragmentChunk 2 0 0 0 ?short 2]
      2 l2 by blast
  have c: "decodeFragmentChunk exampleFragmentChunk [1, 0] = Inl RangeError"
    using decodeFragmentChunk_layout [of "[1, 0]" exampleFragmentChunk] l3 by blast
  from a b c show ?thesis unfolding t elements32_example by blast
qed



subsection \<open>Caches\<close>




















subsection \<open>Partial repositories\<close>

lemma parseDataInstances_result:
  "parseDataInstances objs ks (m, errs) =
     ((\<lambda>key. if key \<in> set ks
             then (case parseDataInstance (getProperty objs key) key (Object_keys objs) of
                     Inr i \<Rightarrow> Some i | Inl e \<Rightarrow> m key)
             else m key),
      errs @ concat (map (\<lambda>key.
                case parseDataInstance (getProperty objs key) key (Object_keys objs) of
                  Inl e \<Rightarrow> [FailedToParseDataInstance key e] | Inr i \<Rightarrow> []) ks))"
proof (induction ks arbitrary: m errs)
  case Nil
  then show ?case by simp
next
  case (Cons k ks)
  show ?case
  proof (cases "parseDataInstance (getProperty objs k) k (Object_keys objs)")
    case (Inl e)
    then show ?thesis
      by (simp add: Cons.IH) (auto simp: fun_eq_iff Inl)
  next
    case (Inr i)
    then show ?thesis
      by (simp add: Cons.IH) (auto simp: fun_eq_iff Inr split: sum.splits)
  qed
qed

lemma example_countLevels:
  "countLevels [''grayscale'', ''grayscale_1'', ''meta''] ''grayscale'' 1 = 2"
  "countLevels [''grayscale'', ''grayscale_1'', ''meta''] ''grayscale_1'' 1 = 1"
  by (simp_all add: countLevels.simps natToString.simps digitChar_def)

lemma example_countLevels_Suc:
  "countLevels [''grayscale'', ''grayscale_1'', ''meta''] ''grayscale'' (Suc 0) = 2"
  "countLevels [''grayscale'', ''grayscale_1'', ''meta''] ''grayscale_1'' (Suc 0) = 1"
  using example_countLevels by simp_all

lemma example_base:
  "new_DataInstanceBaseInfo (JObject [(''TypeName'', JString ''uint8blk'')])
     = Inr \<lparr>DataInstanceBaseInfo.obj = JObject [(''TypeName'', JString ''uint8blk'')]\<rparr>"
  "typeName \<lparr>DataInstanceBaseInfo.obj = JObject [(''TypeName'', JString ''uint8blk'')]\<rparr>
     = ''uint8blk''"
  "new_DataInstanceBaseInfo (JObject [(''TypeName'', JString ''keyvalue'')])
     = Inr \<lparr>DataInstanceBaseInfo.obj = JObject [(''TypeName'', JString ''keyvalue'')]\<rparr>"
  "typeName \<lparr>DataInstanceBaseInfo.obj = JObject [(''TypeName'', JString ''keyvalue'')]\<rparr>
     = ''keyvalue''"
  by (simp_all add: new_DataInstanceBaseInfo_def typeName_def verifyObject_def
      verifyObjectProperty_def verifyString_def getProperty_def bindR_def)

lemma example_volume:
  "new_VolumeDataInstanceInfo exampleInstanceJson ''grayscale''
     \<lparr>DataInstanceBaseInfo.obj = JObject [(''TypeName'', JString ''uint8blk'')]\<rparr> IMAGE
     [''grayscale'', ''grayscale_1'', ''meta''] = Inr exampleVolumeInfo"
  by (simp add: new_VolumeDataInstanceInfo_def exampleInstanceJson_def exampleVolumeInfo_def
      verifyObject_def verifyObjectProperty_def getProperty_def bindR_def parseArray_def
      verifyMapKey_def serverDataTypes_def parseIntVec_def parseFixedLengthArray_def
      verifyInt_def verifyFinitePositiveFloat_def example_countLevels_Suc)

lemma example_parse_grayscale:
  "parseDataInstance exampleInstanceJson ''grayscale'' [''grayscale'', ''grayscale_1'', ''meta'']
     = Inr (VolumeInfo exampleVolumeInfo)"
proof -
  have b: "verifyObjectProperty exampleInstanceJson ''Base'' new_DataInstanceBaseInfo
      = Inr \<lparr>DataInstanceBaseInfo.obj = JObject [(''TypeName'', JString ''uint8blk'')]\<rparr>"
    by (simp add: verifyObjectProperty_def getProperty_def exampleInstanceJson_def example_base)
  have o: "verifyObject exampleInstanceJson = Inr exampleInstanceJson"
    by (simp add: verifyObject_def exampleInstanceJson_def)
  show ?thesis
    unfolding parseDataInstance_def o b
    by (simp add: bindR_def example_base example_volume)
qed

lemma example_parse_meta:
  "parseDataInstance (JObject [(''Base'', JObject [(''TypeName'', JString ''keyvalue'')])])
     ''meta'' [''grayscale'', ''grayscale_1'', ''meta'']
     = Inl (DataTypeNotSupported ''keyvalue'')"
proof -
  have b: "verifyObjectProperty (JObject [(''Base'', JObject [(''TypeName'', JString ''keyvalue'')])])
      ''Base'' new_DataInstanceBaseInfo
      = Inr \<lparr>DataInstanceBaseInfo.obj = JObject [(''TypeName'', JString ''keyvalue'')]\<rparr>"
    by (simp add: verifyObjectProperty_def getProperty_def example_base)
  show ?thesis
    unfolding parseDataInstance_def b
    by (simp add: bindR_def verifyObject_def example_base)
qed

lemma example_parse_level1:
  "\<exists>i. parseDataInstance exampleInstanceJson ''grayscale_1''
     [''grayscale'', ''grayscale_1'', ''meta''] = Inr i"
proof -
  have b: "verifyObjectProperty exampleInstanceJson ''Base'' new_DataInstanceBaseInfo
      = Inr \<lparr>DataInstanceBaseInfo.obj = JObject [(''TypeName'', JString ''uint8blk'')]\<rparr>"
    by (simp add: verifyObjectProperty_def getProperty_def exampleInstanceJson_def example_base)
  have o: "verifyObject exampleInstanceJson = Inr exampleInstanceJson"
    by (simp add: verifyObject_def exampleInstanceJson_def)
  have v: "\<exists>i. new_VolumeDataInstanceInfo exampleInstanceJson ''grayscale_1''
     \<lparr>DataInstanceBaseInfo.obj = JObject [(''TypeName'', JString ''uint8blk'')]\<rparr> IMAGE
     [''grayscale'', ''grayscale_1'', ''meta''] = Inr i"
    by (simp add: new_VolumeDataInstanceInfo_def exampleInstanceJson_def
      verifyObject_def verifyObjectProperty_def getProperty_def bindR_def parseArray_def
      verifyMapKey_def serverDataTypes_def parseIntVec_def parseFixedLengthArray_def
      verifyInt_def verifyFinitePositiveFloat_def example_countLevels_Suc)
  then obtain i where "new_VolumeDataInstanceInfo exampleInstanceJson ''grayscale_1''
     \<lparr>DataInstanceBaseInfo.obj = JObject [(''TypeName'', JString ''uint8blk'')]\<rparr> IMAGE
     [''grayscale'', ''grayscale_1'', ''meta''] = Inr i" by blast
  then show ?thesis
    unfolding parseDataInstance_def o b
    by (simp add: bindR_def example_base)
qed

text \<open>
  Claim C3. For a repository-info object (an object with the strings \<open>Alias\<close> and
  \<open>Description\<close>, the object \<open>DataInstances\<close> and the object \<open>DAG\<close> with its object
  \<open>Nodes\<close>), the \<open>RepositoryInfo\<close> constructor returns whichever data instances fail
  to parse: each failing instance is left out of \<open>dataInstances\<close>, \<open>errors\<close> holds one
  message per failure, naming the instance, and every instance that parses is retained.
\<close>

theorem RepositoryInfo_partial:
  assumes "getProperty (JObject kvs) ''Alias'' = JString a"
    and "getProperty (JObject kvs) ''Description'' = JString d"
    and "getProperty (JObject kvs) ''DataInstances'' = JObject insts"
    and "getProperty (JObject kvs) ''DAG'' = JObject dag"
    and "getProperty (JObject dag) ''Nodes'' = JObject nodeObjs"
  shows "\<exists>r. new_RepositoryInfo (JObject kvs) = Inr r \<and>
    repoAlias r = Some a \<and> description r = Some d \<and> nodes r = set (map fst nodeObjs) \<and>
    (\<forall>key \<in> set (map fst insts).
       case parseDataInstance (getProperty (JObject insts) key) key (map fst insts) of
         Inr i \<Rightarrow> dataInstances r key = Some i
       | Inl e \<Rightarrow> dataInstances r key = None \<and> FailedToParseDataInstance key e \<in> set (errors r)) \<and>
    dom (dataInstances r) \<subseteq> set (map fst insts) \<and>
    errors r = concat (map (\<lambda>key.
       case parseDataInstance (getProperty (JObject insts) key) key (map fst insts) of
         Inl e \<Rightarrow> [FailedToParseDataInstance key e] | Inr i \<Rightarrow> []) (map fst insts))"
proof -
  let ?P = "\<lambda>key. parseDataInstance (getProperty (JObject insts) key) key (map fst insts)"
  let ?m = "\<lambda>key. if key \<in> set (map fst insts)
             then (case ?P key of Inr i \<Rightarrow> Some i | Inl e \<Rightarrow> None) else None"
  let ?errs = "concat (map (\<lambda>key. case ?P key of
                  Inl e \<Rightarrow> [FailedToParseDataInstance key e] | Inr i \<Rightarrow> []) (map fst insts))"
  have ok: "Object_keys (JObject insts) = map fst insts"
    by (simp add: Object_keys_def)
  have loop: "parseDataInstances (JObject insts) (map fst insts) (Map.empty, [])
      = (?m, ?errs)"
    unfolding parseDataInstances_result ok by simp
  define R where "R = \<lparr>repoAlias = Some a, description = Some d, errors = ?errs,
           dataInstances = ?m, uuid = None, nodes = set (map fst nodeObjs)\<rparr>"
  have sel: "repoAlias R = Some a" "description R = Some d"
    "nodes R = set (map fst nodeObjs)" "dataInstances R = ?m" "errors R = ?errs"
    by (simp_all add: R_def)
  have r: "new_RepositoryInfo (JObject kvs) = Inr R"
    unfolding new_RepositoryInfo_def R_def
    by (simp add: verifyObject_def verifyObjectProperty_def verifyString_def bindR_def
        assms loop Object_keys_def Let_def)
  have each: "\<forall>key \<in> set (map fst insts).
       case ?P key of
         Inr i \<Rightarrow> ?m key = Some i
       | Inl e \<Rightarrow> ?m key = None \<and> FailedToParseDataInstance key e \<in> set ?errs"
  proof
    fix key
    assume k: "key \<in> set (map fst insts)"
    show "case ?P key of
         Inr i \<Rightarrow> ?m key = Some i
       | Inl e \<Rightarrow> ?m key = None \<and> FailedToParseDataInstance key e \<in> set ?errs"
    proof (cases "?P key")
      case (Inl e)
      have "FailedToParseDataInstance key e \<in> set ?errs"
        using k Inl by (force simp: Inl)
      then show ?thesis using k Inl by simp
    next
      case (Inr i)
      then show ?thesis using k by simp
    qed
  qed
  have dom: "dom ?m \<subseteq> set (map fst insts)"
    by (auto split: if_splits)
  show ?thesis
  proof (intro exI [of _ R] conjI)
    show "new_RepositoryInfo (JObject kvs) = Inr R" by (rule r)
    show "repoAlias R = Some a" "description R = Some d" "nodes R = set (map fst nodeObjs)"
      by (rule sel)+
    show "\<forall>key \<in> set (map fst insts).
       case ?P key of
         Inr i \<Rightarrow> dataInstances R key = Some i
       | Inl e \<Rightarrow> dataInstances R key = None \<and>
           FailedToParseDataInstance key e \<in> set (errors R)"
      unfolding sel by (rule each)
    show "dom (dataInstances R) \<subseteq> set (map fst insts)"
      unfolding sel by (rule dom)
    show "errors R = ?errs" by (rule sel)
  qed
qed

theorem RepositoryInfo_partial_witness:
  "\<exists>r. new_RepositoryInfo exampleRepositoryJson = Inr r \<and>
     dataInstances r ''grayscale'' = Some (VolumeInfo exampleVolumeInfo) \<and>
     dataInstances r ''meta'' = None \<and>
     errors r = [FailedToParseDataInstance ''meta'' (DataTypeNotSupported ''keyvalue'')]"
proof -
  let ?insts = "[(''grayscale'', exampleInstanceJson), (''grayscale_1'', exampleInstanceJson),
                 (''meta'', JObject [(''Base'', JObject [(''TypeName'', JString ''keyvalue'')])])]"
  let ?kvs = "[(''Alias'', JString ''grayscale''), (''Description'', JString ''example''),
        (''DataInstances'', JObject ?insts),
        (''DAG'', JObject [(''Nodes'', JObject [(''d5053e99'', JObject [])])])]"
  have j: "exampleRepositoryJson = JObject ?kvs"
    by (simp add: exampleRepositoryJson_def)
  have h: "getProperty (JObject ?kvs) ''Alias'' = JString ''grayscale''"
    "getProperty (JObject ?kvs) ''Description'' = JString ''example''"
    "getProperty (JObject ?kvs) ''DataInstances'' = JObject ?insts"
    "getProperty (JObject ?kvs) ''DAG'' = JObject [(''Nodes'', JObject [(''d5053e99'', JObject [])])]"
    "getProperty (JObject [(''Nodes'', JObject [(''d5053e99'', JObject [])])]) ''Nodes''
       = JObject [(''d5053e99'', JObject [])]"
    by (simp_all add: getProperty_def)
  have k: "map fst ?insts = [''grayscale'', ''grayscale_1'', ''meta'']" by simp
  have g: "getProperty (JObject ?insts) ''grayscale'' = exampleInstanceJson"
    "getProperty (JObject ?insts) ''grayscale_1'' = exampleInstanceJson"
    "getProperty (JObject ?insts) ''meta''
       = JObject [(''Base'', JObject [(''TypeName'', JString ''keyvalue'')])]"
    by (simp_all add: getProperty_def)
  obtain i where l1: "parseDataInstance exampleInstanceJson ''grayscale_1''
     [''grayscale'', ''grayscale_1'', ''meta''] = Inr i"
    using example_parse_level1 by blast
  from RepositoryInfo_partial [OF h]
  obtain r where r: "new_RepositoryInfo (JObject ?kvs) = Inr r"
    and each: "\<forall>key \<in> set (map fst ?insts).
       case parseDataInstance (getProperty (JObject ?insts) key) key (map fst ?insts) of
         Inr i \<Rightarrow> dataInstances r key = Some i
       | Inl e \<Rightarrow> dataInstances r key = None \<and> FailedToParseDataInstance key e \<in> set (errors r)"
    and errs: "errors r = concat (map (\<lambda>key.
       case parseDataInstance (getProperty (JObject ?insts) key) key (map fst ?insts) of
         Inl e \<Rightarrow> [FailedToParseDataInstance key e] | Inr i \<Rightarrow> []) (map fst ?insts))"
    by blast
  from each have "dataInstances r ''grayscale'' = Some (VolumeInfo exampleVolumeInfo)"
    unfolding k by (simp add: g example_parse_grayscale)
  moreover from each have "dataInstances r ''meta'' = None"
    unfolding k by (simp add: g example_parse_meta)
  moreover from errs
  have "errors r = [FailedToParseDataInstance ''meta'' (DataTypeNotSupported ''keyvalue'')]"
    unfolding k by (simp add: g example_parse_grayscale example_parse_meta l1)
  ultimately show ?thesis using r unfolding j by blast
qed

end
